theory Spec2Isabelle
  imports Main
begin

section \<open>Proceedings volumes of the anthology (bin/anthology/volumes.py)\<close>

text \<open>
  The module defines one class, \<^verbatim>\<open>Volume\<close>. A volume is built from a front-matter
  \<^verbatim>\<open>Paper\<close> and two indexes; it owns a dictionary of attributes and a list of papers.
  Python objects are mutable and shared by reference, so papers, dictionaries and the
  mutable objects among the attribute values live in an explicit store and the model passes
  references to them. Every \<^verbatim>\<open>raise\<close> of the
  interpreter is a value of \<open>error\<close>, and a method that can raise returns its result
  together with the state it left behind.

  A Python string is modelled as \<open>string\<close>, one \<open>char\<close> per character; titles and
  identifiers are therefore restricted to the code points below 256.
\<close>

subsection \<open>Data model\<close>

datatype error =
    IndexError
  | KeyError string
  | NameError string
  | TypeError
  | AttributeError string

text \<open>
  Attribute values are loosely typed. The module itself only ever inspects the title, which
  \<^verbatim>\<open>re.search\<close> needs to be a \<^verbatim>\<open>str\<close>; every other value (author lists, the sets of venues
  and SIGs, ...) is opaque to it. A value that is a mutable object (a list of authors, a set
  of codes) is a reference \<open>VRef\<close> to that object in the store: \<^verbatim>\<open>dict.copy()\<close> is shallow and
  the assignment \<^verbatim>\<open>d[k] = d[k']\<close> stores the same object under \<open>k\<close>, so two dictionaries can
  hold one object. A string is immutable and stored as it is (\<open>VStr\<close>), and so is any
  other immutable value (\<open>VOther\<close>).
\<close>

datatype 'o val = VStr string | VRef nat | VOther 'o

type_synonym 'o dict = "string \<rightharpoonup> 'o val"

text \<open>
  \<^verbatim>\<open>Paper\<close> is imported from \<^verbatim>\<open>.papers\<close>; the module reads \<^verbatim>\<open>paper_id\<close>, \<^verbatim>\<open>top_level_id\<close>,
  \<^verbatim>\<open>attrib\<close>, \<^verbatim>\<open>full_id\<close> and \<^verbatim>\<open>parent_volume_id\<close>, and assigns \<^verbatim>\<open>parent_volume_id\<close>.
  \<open>paper_attrib\<close> is a reference to a dictionary of the store; \<open>None\<close> is Python's \<^verbatim>\<open>None\<close>.
\<close>

record paper =
  paper_id :: string
  paper_top_level_id :: string
  paper_attrib :: nat
  parent_volume_id :: "string option"

text \<open>
  The attributes \<^verbatim>\<open>__init__\<close> assigns to \<^verbatim>\<open>self\<close>. \<open>content\<close> is \<open>None\<close> as long as
  \<^verbatim>\<open>self.content\<close> has not been assigned; its elements are references to papers.
\<close>

record volume =
  front_matter_id :: string
  top_level_id :: string
  attrib :: nat
  content :: "nat list option"

text \<open>
  The store: the paper behind each paper reference, the dictionary behind each dictionary
  reference, the next unused dictionary reference (\<^verbatim>\<open>dict.copy()\<close> allocates there), and
  the elements of the mutable object (a list, a set) behind each object reference.
\<close>

record 'o store =
  papers :: "nat \<Rightarrow> paper"
  dicts :: "nat \<Rightarrow> 'o dict"
  next_dict :: nat
  objects :: "nat \<Rightarrow> 'o val list"

text \<open>
  What the module imports and this repository snapshot does not contain, taken as
  parameters: \<^verbatim>\<open>data.ANTHOLOGY_URL.format(id)\<close>, \<^verbatim>\<open>data.get_journal_title(top_level_id, title)\<close>
  and the property \<^verbatim>\<open>Paper.full_id\<close>. They are assumed to return without raising and
  without changing a paper or a dictionary.
\<close>

record 'o collab =
  ANTHOLOGY_URL_format :: "string \<Rightarrow> 'o val"
  get_journal_title :: "string \<Rightarrow> 'o val \<Rightarrow> 'o val"
  Paper_full_id :: "paper \<Rightarrow> string"

subsection \<open>Dictionary operations on the store\<close>

definition dict_set :: "nat \<Rightarrow> string \<Rightarrow> 'o val \<Rightarrow> 'o store \<Rightarrow> 'o store" where
  "dict_set r k x s = s\<lparr>dicts := (dicts s)(r := (dicts s r)(k \<mapsto> x))\<rparr>"

definition dict_del :: "nat \<Rightarrow> string \<Rightarrow> 'o store \<Rightarrow> 'o store" where
  "dict_del r k s = s\<lparr>dicts := (dicts s)(r := (dicts s r)(k := None))\<rparr>"

definition dict_copy :: "nat \<Rightarrow> 'o store \<Rightarrow> nat \<times> 'o store" where
  "dict_copy r s =
     (next_dict s, s\<lparr>dicts := (dicts s)(next_dict s := dicts s r), next_dict := Suc (next_dict s)\<rparr>)"

subsection \<open>The property \<^verbatim>\<open>full_id\<close>\<close>

text \<open>
  \<^verbatim>\<open>self.top_level_id[0]\<close> and \<^verbatim>\<open>self.front_matter_id[0]\<close> raise \<^verbatim>\<open>IndexError\<close> on the empty
  string; the slice \<^verbatim>\<open>self.front_matter_id[:2]\<close> never raises.
\<close>

definition full_id :: "volume \<Rightarrow> error + string" where
  "full_id v =
     (case top_level_id v of
        [] \<Rightarrow> Inl IndexError
      | c # _ \<Rightarrow>
          if c = CHR ''W'' then Inr (top_level_id v @ ''-'' @ take 2 (front_matter_id v))
          else (case front_matter_id v of
                  [] \<Rightarrow> Inl IndexError
                | d # _ \<Rightarrow> Inr (top_level_id v @ ''-'' @ [d])))"

subsection \<open>The property \<^verbatim>\<open>paper_ids\<close> and the method \<^verbatim>\<open>append\<close>\<close>

definition paper_ids :: "'o collab \<Rightarrow> volume \<Rightarrow> 'o store \<Rightarrow> error + string list" where
  "paper_ids env v s =
     (case content v of
        None \<Rightarrow> Inl (AttributeError ''content'')
      | Some cs \<Rightarrow> Inr (map (\<lambda>r. Paper_full_id env (papers s r)) cs))"

text \<open>
  \<^verbatim>\<open>append\<close> first appends to \<^verbatim>\<open>self.content\<close>, then tests \<^verbatim>\<open>paper.parent_volume_id\<close>. The
  branch for an owned paper calls \<^verbatim>\<open>log.error\<close>, and the module neither imports nor defines
  \<^verbatim>\<open>log\<close>: looking the name up raises \<^verbatim>\<open>NameError\<close> before any argument is evaluated, and
  the assignment below it is not reached. The state the exception leaves behind (the
  paper is already in \<^verbatim>\<open>content\<close>) is returned with it.
\<close>

definition append_vol ::
  "volume \<Rightarrow> nat \<Rightarrow> 'o store \<Rightarrow> (error + unit) \<times> volume \<times> 'o store" where
  "append_vol v p s =
     (case content v of
        None \<Rightarrow> (Inl (AttributeError ''content''), v, s)
      | Some cs \<Rightarrow>
          let v1 = v\<lparr>content := Some (cs @ [p])\<rparr> in
          if parent_volume_id (papers s p) \<noteq> None then (Inl (NameError ''log''), v1, s)
          else (case full_id v1 of
                  Inl e \<Rightarrow> (Inl e, v1, s)
                | Inr fid \<Rightarrow>
                    (Inr (), v1,
                     s\<lparr>papers := (papers s)(p := (papers s p)\<lparr>parent_volume_id := Some fid\<rparr>)\<rparr>)))"

subsection \<open>The two regular expressions of \<^verbatim>\<open>_set_meta_info\<close>\<close>

text \<open>
  Character classes of \<^verbatim>\<open>re\<close> on \<^verbatim>\<open>str\<close>, for the code points below 256: \<^verbatim>\<open>\s\<close> is
  \<^verbatim>\<open>str.isspace\<close> (tab to carriage return, the four separators 28 to 31, space, NEL and the
  no-break space), \<^verbatim>\<open>\d\<close> is the ten ASCII digits, and under \<^verbatim>\<open>re.IGNORECASE\<close> a letter
  of the pattern matches its two ASCII cases.
\<close>

definition is_space :: "char \<Rightarrow> bool" where
  "is_space c =
     (let n = (of_char c :: nat) in (9 \<le> n \<and> n \<le> 13) \<or> (28 \<le> n \<and> n \<le> 32) \<or> n = 133 \<or> n = 160)"

definition is_digit :: "char \<Rightarrow> bool" where
  "is_digit c = (let n = (of_char c :: nat) in 48 \<le> n \<and> n \<le> 57)"

definition lower :: "char \<Rightarrow> char" where
  "lower c = (let n = (of_char c :: nat) in if 65 \<le> n \<and> n \<le> 90 then char_of (n + 32) else c)"

text \<open>
  A literal of the pattern (given in lower case) against the start of the text; the result
  is the rest of the text behind it.
\<close>

fun match_literal :: "string \<Rightarrow> string \<Rightarrow> string option" where
  "match_literal [] s = Some s"
| "match_literal (p # ps) [] = None"
| "match_literal (p # ps) (c # cs) = (if lower c = p then match_literal ps cs else None)"

text \<open>
  \<^verbatim>\<open>\s*(\d+)\<close> behind the keyword. Both repetitions are greedy, and giving back a character
  never helps: behind a shorter run of spaces stands a space, not a digit, and nothing
  follows \<^verbatim>\<open>\d+\<close> in the pattern. The result is group 1.
\<close>

definition volume_tail :: "string option \<Rightarrow> string option" where
  "volume_tail m =
     (case m of
        None \<Rightarrow> None
      | Some r \<Rightarrow>
          let ds = takeWhile is_digit (dropWhile is_space r)
          in if ds = [] then None else Some ds)"

text \<open>
  \<^verbatim>\<open>\s*(\d+-?\d*)\<close> behind the keyword: the longest run of digits (at least one), a hyphen
  if one follows, and the longest run of digits behind the hyphen. The result is group 2.
\<close>

definition issue_tail :: "string option \<Rightarrow> string option" where
  "issue_tail m =
     (case m of
        None \<Rightarrow> None
      | Some r \<Rightarrow>
          let r1 = dropWhile is_space r;
              ds = takeWhile is_digit r1;
              r2 = dropWhile is_digit r1
          in if ds = [] then None
             else Some (ds @ (case r2 of
                                [] \<Rightarrow> []
                              | h # r3 \<Rightarrow> if h = CHR ''-'' then h # takeWhile is_digit r3 else [])))"

text \<open>The pattern \<^verbatim>\<open>Volume\s*(\d+)\<close> matched at the start of the text.\<close>

definition match_volume :: "string \<Rightarrow> string option" where
  "match_volume s = volume_tail (match_literal ''volume'' s)"

text \<open>
  The pattern \<^verbatim>\<open>(Number|Issue)\s*(\d+-?\d*)\<close> matched at the start of the text: the second
  alternative is tried when the first one, with all that follows it, fails.
\<close>

definition match_issue :: "string \<Rightarrow> string option" where
  "match_issue s =
     (case issue_tail (match_literal ''number'' s) of
        Some g \<Rightarrow> Some g
      | None \<Rightarrow> issue_tail (match_literal ''issue'' s))"

text \<open>
  \<^verbatim>\<open>re.search\<close>: the match at the leftmost start position that has one, positions from
  0 to the length of the text.
\<close>

fun re_search :: "(string \<Rightarrow> string option) \<Rightarrow> string \<Rightarrow> string option" where
  "re_search m [] = m []"
| "re_search m (c # cs) = (case m (c # cs) of Some g \<Rightarrow> Some g | None \<Rightarrow> re_search m cs)"

definition search_volume :: "string \<Rightarrow> string option" where
  "search_volume = re_search match_volume"

definition search_issue :: "string \<Rightarrow> string option" where
  "search_issue = re_search match_issue"

subsection \<open>The method \<^verbatim>\<open>_set_meta_info\<close>\<close>

text \<open>\<^verbatim>\<open>d[k]\<close> raises \<^verbatim>\<open>KeyError\<close> for a missing key.\<close>

definition getitem :: "nat \<Rightarrow> string \<Rightarrow> 'o store \<Rightarrow> error + 'o val" where
  "getitem r k s = (case dicts s r k of None \<Rightarrow> Inl (KeyError k) | Some x \<Rightarrow> Inr x)"

text \<open>
  The title is read from the dictionary three times, as in the source. \<^verbatim>\<open>re.search\<close>
  raises \<^verbatim>\<open>TypeError\<close> on a value that is not a string, a mutable object included.
\<close>

definition set_meta_info ::
  "'o collab \<Rightarrow> volume \<Rightarrow> 'o store \<Rightarrow> (error + unit) \<times> 'o store" where
  "set_meta_info env v s =
     (case getitem (attrib v) ''title'' s of
        Inl e \<Rightarrow> (Inl e, s)
      | Inr t \<Rightarrow>
          let s1 = dict_set (attrib v) ''meta_journal_title''
                     (get_journal_title env (top_level_id v) t) s
          in (case getitem (attrib v) ''title'' s1 of
                Inl e \<Rightarrow> (Inl e, s1)
              | Inr (VRef x) \<Rightarrow> (Inl TypeError, s1)
              | Inr (VOther x) \<Rightarrow> (Inl TypeError, s1)
              | Inr (VStr t1) \<Rightarrow>
                  let s2 = (case search_volume t1 of
                              None \<Rightarrow> s1
                            | Some g \<Rightarrow> dict_set (attrib v) ''meta_volume'' (VStr g) s1)
                  in (case getitem (attrib v) ''title'' s2 of
                        Inl e \<Rightarrow> (Inl e, s2)
                      | Inr (VRef x) \<Rightarrow> (Inl TypeError, s2)
                      | Inr (VOther x) \<Rightarrow> (Inl TypeError, s2)
                      | Inr (VStr t2) \<Rightarrow>
                          (Inr (),
                           (case search_issue t2 of
                              None \<Rightarrow> s2
                            | Some g \<Rightarrow> dict_set (attrib v) ''meta_issue'' (VStr g) s2)))))"

subsection \<open>The constructor\<close>

text \<open>
  Lines 20 to 30: the identifiers, the copy of the front matter's dictionary, the renaming
  of \<^verbatim>\<open>author\<close> to \<^verbatim>\<open>editor\<close> and the three fields that are not copied.
\<close>

definition rename_author :: "nat \<Rightarrow> 'o store \<Rightarrow> 'o store" where
  "rename_author r s =
     (case dicts s r ''author'' of
        None \<Rightarrow> s
      | Some a \<Rightarrow> dict_del r ''author'' (dict_set r ''editor'' a s))"

definition del_if_present :: "nat \<Rightarrow> string \<Rightarrow> 'o store \<Rightarrow> 'o store" where
  "del_if_present r k s = (if dicts s r k \<noteq> None then dict_del r k s else s)"

definition init_attrib :: "nat \<Rightarrow> 'o store \<Rightarrow> volume \<times> 'o store" where
  "init_attrib fm s =
     (let (a, s1) = dict_copy (paper_attrib (papers s fm)) s;
          v = \<lparr>front_matter_id = paper_id (papers s fm),
               top_level_id = paper_top_level_id (papers s fm),
               attrib = a, content = None\<rparr>;
          s2 = rename_author a s1;
          s3 = fold (del_if_present a) [''revision'', ''erratum'', ''pages''] s2
      in (v, s3))"

text \<open>
  The two indexes are given by the one method the constructor calls on each:
  \<open>register\<close> is \<^verbatim>\<open>venue_index.register\<close>, which receives the volume as built so far and
  may read its dictionary, and \<open>get_associated_sigs\<close> is \<^verbatim>\<open>sig_index.get_associated_sigs\<close>.
  Both are assumed to return without raising and without changing a paper or a dictionary.
  The result is the outcome, the volume and the store; after an exception the volume is
  the object as the constructor left it.
\<close>

definition Volume_init ::
  "'o collab \<Rightarrow> nat \<Rightarrow> (volume \<Rightarrow> 'o store \<Rightarrow> 'o val) \<Rightarrow> (string \<Rightarrow> 'o val) \<Rightarrow> 'o store
     \<Rightarrow> (error + unit) \<times> volume \<times> 'o store" where
  "Volume_init env fm register get_associated_sigs s =
     (let (v, s3) = init_attrib fm s in
      case full_id v of
        Inl e \<Rightarrow> (Inl e, v, s3)
      | Inr fid \<Rightarrow>
          let s4 = dict_set (attrib v) ''url'' (ANTHOLOGY_URL_format env fid) s3;
              s5 = dict_set (attrib v) ''venues'' (register v s4) s4;
              s6 = dict_set (attrib v) ''sigs''
                     (get_associated_sigs (Paper_full_id env (papers s5 fm))) s5
          in (case set_meta_info env v s6 of
                (Inl e, s7) \<Rightarrow> (Inl e, v, s7)
              | (Inr u, s7) \<Rightarrow>
                  let v1 = v\<lparr>content := Some []\<rparr> in
                  (case top_level_id v1 of
                     [] \<Rightarrow> (Inl IndexError, v1, s7)
                   | c # _ \<Rightarrow>
                       if c \<noteq> CHR ''J'' \<and> c \<noteq> CHR ''Q'' then append_vol v1 fm s7
                       else (Inr (), v1, s7))))"

section \<open>What the specification says about the two patterns\<close>





section \<open>Auxiliary definitions for the proofs\<close>

text \<open>
  None of these is part of the model; they name intermediate states of the constructor.
  \<open>derive m\<close> is the dictionary the constructor holds after line 30, \<open>vol0\<close> the volume
  before \<open>content\<close> is assigned, \<open>indexed_store\<close> the store after line 33 and
  \<open>meta_store\<close> the store after a meta-info derivation that succeeds.
\<close>

definition derive :: "'o dict \<Rightarrow> 'o dict" where
  "derive m =
     (\<lambda>k. if k = ''revision'' \<or> k = ''erratum'' \<or> k = ''pages'' \<or> k = ''author'' then None
          else if k = ''editor'' then (case m ''author'' of None \<Rightarrow> m ''editor'' | Some a \<Rightarrow> Some a)
          else m k)"

definition set_opt :: "nat \<Rightarrow> string \<Rightarrow> string option \<Rightarrow> 'o store \<Rightarrow> 'o store" where
  "set_opt r k g s = (case g of None \<Rightarrow> s | Some x \<Rightarrow> dict_set r k (VStr x) s)"

definition meta_store :: "'o collab \<Rightarrow> volume \<Rightarrow> 'o val \<Rightarrow> string \<Rightarrow> 'o store \<Rightarrow> 'o store" where
  "meta_store env v x t s =
     set_opt (attrib v) ''meta_issue'' (search_issue t)
       (set_opt (attrib v) ''meta_volume'' (search_volume t)
          (dict_set (attrib v) ''meta_journal_title'' (get_journal_title env (top_level_id v) x) s))"

definition vol0 :: "nat \<Rightarrow> 'o store \<Rightarrow> volume" where
  "vol0 fm s =
     \<lparr>front_matter_id = paper_id (papers s fm),
      top_level_id = paper_top_level_id (papers s fm),
      attrib = next_dict s, content = None\<rparr>"

definition indexed_store ::
  "'o collab \<Rightarrow> nat \<Rightarrow> (volume \<Rightarrow> 'o store \<Rightarrow> 'o val) \<Rightarrow> (string \<Rightarrow> 'o val) \<Rightarrow> 'o store
     \<Rightarrow> string \<Rightarrow> 'o store" where
  "indexed_store env fm register get_associated_sigs s fid =
     (let v = vol0 fm s;
          s3 = snd (init_attrib fm s);
          s4 = dict_set (attrib v) ''url'' (ANTHOLOGY_URL_format env fid) s3;
          s5 = dict_set (attrib v) ''venues'' (register v s4) s4
      in dict_set (attrib v) ''sigs''
           (get_associated_sigs (Paper_full_id env (papers s5 fm))) s5)"

section \<open>Example data\<close>

text \<open>
  A small archive for the concrete instances below. Paper 0 is the front matter of the
  specification's end-to-end example (a workshop volume, with \<^verbatim>\<open>author\<close> and \<^verbatim>\<open>pages\<close>),
  paper 2 the front matter of a journal issue, paper 3 a paper without a title that already
  belongs to volume \<^verbatim>\<open>P19-2\<close>, paper 6 a front matter whose \<^verbatim>\<open>author\<close> is a list object
  (object 7, with two names), and every other reference a paper whose \<^verbatim>\<open>top_level_id\<close>
  is empty. Dictionary 4 has a title without the word "Volume" and an entry
  \<^verbatim>\<open>meta_volume\<close> of its own. The collaborators are the simplest ones: the URL template of
  the anthology, a journal-title lookup that returns the title, and indexes that return
  an opaque value.
\<close>

definition ex_collab :: "unit collab" where
  "ex_collab =
     \<lparr>ANTHOLOGY_URL_format = (\<lambda>i. VStr (''https://www.aclweb.org/anthology/'' @ i)),
      get_journal_title = (\<lambda>tl t. t),
      Paper_full_id = (\<lambda>p. paper_top_level_id p @ ''-'' @ paper_id p)\<rparr>"

definition ex_register :: "volume \<Rightarrow> unit store \<Rightarrow> unit val" where
  "ex_register v s = VOther ()"

definition ex_sigs :: "string \<Rightarrow> unit val" where
  "ex_sigs i = VOther ()"

definition ex_paper :: "nat \<Rightarrow> paper" where
  "ex_paper r =
     (if r = 0 then \<lparr>paper_id = ''1000'', paper_top_level_id = ''W15'', paper_attrib = 0,
                     parent_volume_id = None\<rparr>
      else if r = 2 then \<lparr>paper_id = ''1000'', paper_top_level_id = ''J88'', paper_attrib = 2,
                     parent_volume_id = None\<rparr>
      else if r = 3 then \<lparr>paper_id = ''2001'', paper_top_level_id = ''P19'', paper_attrib = 3,
                     parent_volume_id = Some ''P19-2''\<rparr>
      else if r = 6 then \<lparr>paper_id = ''3000'', paper_top_level_id = ''P18'', paper_attrib = 1,
                     parent_volume_id = None\<rparr>
      else \<lparr>paper_id = ''1000'', paper_top_level_id = '''', paper_attrib = 3,
             parent_volume_id = None\<rparr>)"

definition ex_dict :: "nat \<Rightarrow> unit dict" where
  "ex_dict r =
     (if r = 0 then [''title'' \<mapsto> VStr ''Proceedings of the Workshop, Volume 2'',
                     ''author'' \<mapsto> VStr ''A. Editor'', ''pages'' \<mapsto> VStr ''1-10'']
      else if r = 2 then [''title'' \<mapsto> VStr ''Computational Linguistics, Volume 14, Number 1'']
      else if r = 3 then [''booktitle'' \<mapsto> VStr ''Proceedings'']
      else if r = 1 then [''title'' \<mapsto> VStr ''Proceedings of the Conference'',
                          ''author'' \<mapsto> VRef 7]
      else [''title'' \<mapsto> VStr ''Proceedings'', ''meta_volume'' \<mapsto> VStr ''7''])"

definition ex_objects :: "nat \<Rightarrow> unit val list" where
  "ex_objects r = (if r = 7 then [VStr ''A. Editor'', VStr ''B. Editor''] else [])"

definition ex_store :: "unit store" where
  "ex_store = \<lparr>papers = ex_paper, dicts = ex_dict, next_dict = 5, objects = ex_objects\<rparr>"

definition ex_volume :: volume where
  "ex_volume = \<lparr>front_matter_id = ''1000'', top_level_id = ''W15'', attrib = 4, content = Some [0]\<rparr>"


section \<open>Properties\<close>

subsection \<open>Stores and dictionaries\<close>

lemma dict_set_sel [simp]:
  "dicts (dict_set r k x s) = (dicts s)(r := (dicts s r)(k \<mapsto> x))"
  "papers (dict_set r k x s) = papers s"
  "next_dict (dict_set r k x s) = next_dict s"
  "objects (dict_set r k x s) = objects s"
  by (simp_all add: dict_set_def)

lemma dict_del_sel [simp]:
  "dicts (dict_del r k s) = (dicts s)(r := (dicts s r)(k := None))"
  "papers (dict_del r k s) = papers s"
  "next_dict (dict_del r k s) = next_dict s"
  "objects (dict_del r k s) = objects s"
  by (simp_all add: dict_del_def)

lemma del_if_present_eq: "del_if_present r k s = dict_del r k s"
proof (cases "dicts s r k")
  case None
  then have "(dicts s)(r := (dicts s r)(k := None)) = dicts s"
    by (simp add: fun_eq_iff)
  with None show ?thesis by (simp add: del_if_present_def dict_del_def)
next
  case (Some a)
  then show ?thesis by (simp add: del_if_present_def)
qed

lemma rename_author_sel [simp]:
  "papers (rename_author r s) = papers s"
  "next_dict (rename_author r s) = next_dict s"
  "objects (rename_author r s) = objects s"
  "dicts (rename_author r s) =
     (dicts s)(r := (case dicts s r ''author'' of
                       None \<Rightarrow> dicts s r
                     | Some a \<Rightarrow> (dicts s r)(''editor'' \<mapsto> a, ''author'' := None)))"
  by (simp_all add: rename_author_def split: option.splits)

lemma init_attrib_fst:
  "fst (init_attrib fm s) =
     \<lparr>front_matter_id = paper_id (papers s fm),
      top_level_id = paper_top_level_id (papers s fm),
      attrib = next_dict s, content = None\<rparr>"
  by (simp add: init_attrib_def dict_copy_def Let_def)

lemma init_attrib_snd:
  "papers (snd (init_attrib fm s)) = papers s"
  "next_dict (snd (init_attrib fm s)) = Suc (next_dict s)"
  "objects (snd (init_attrib fm s)) = objects s"
  "dicts (snd (init_attrib fm s)) =
     (dicts s)(next_dict s := derive (dicts s (paper_attrib (papers s fm))))"
  by (simp_all add: init_attrib_def dict_copy_def Let_def del_if_present_eq derive_def fun_eq_iff
      split: option.splits)

lemma set_opt_sel [simp]:
  "papers (set_opt r k g s) = papers s"
  "next_dict (set_opt r k g s) = next_dict s"
  "objects (set_opt r k g s) = objects s"
  "dicts (set_opt r k g s) =
     (dicts s)(r := (case g of None \<Rightarrow> dicts s r | Some x \<Rightarrow> (dicts s r)(k \<mapsto> VStr x)))"
  by (simp_all add: set_opt_def split: option.splits)

lemma set_meta_info_no_title:
  "dicts s (attrib v) ''title'' = None \<Longrightarrow>
     set_meta_info env v s = (Inl (KeyError ''title''), s)"
  by (simp add: set_meta_info_def getitem_def)

lemma set_meta_info_not_str:
  "dicts s (attrib v) ''title'' = Some x \<Longrightarrow> \<forall>t. x \<noteq> VStr t \<Longrightarrow>
     set_meta_info env v s =
       (Inl TypeError,
        dict_set (attrib v) ''meta_journal_title''
          (get_journal_title env (top_level_id v) x) s)"
  by (cases x) (simp_all add: set_meta_info_def getitem_def)

lemma set_meta_info_str:
  "dicts s (attrib v) ''title'' = Some (VStr t) \<Longrightarrow>
     set_meta_info env v s = (Inr (), meta_store env v (VStr t) t s)"
  by (simp add: set_meta_info_def getitem_def meta_store_def set_opt_def split: option.splits)

lemma set_meta_info_Inr:
  assumes "set_meta_info env v s = (Inr u, s')"
  shows "\<exists>t. dicts s (attrib v) ''title'' = Some (VStr t) \<and> s' = meta_store env v (VStr t) t s"
proof (cases "dicts s (attrib v) ''title''")
  case None
  with assms show ?thesis by (simp add: set_meta_info_no_title)
next
  case (Some x)
  show ?thesis
  proof (cases x)
    case (VStr t)
    with Some assms show ?thesis by (simp add: set_meta_info_str)
  next
    case (VRef y)
    with Some assms show ?thesis by (simp add: set_meta_info_not_str)
  next
    case (VOther y)
    with Some assms show ?thesis by (simp add: set_meta_info_not_str)
  qed
qed

lemma vol0_sel [simp]:
  "front_matter_id (vol0 fm s) = paper_id (papers s fm)"
  "top_level_id (vol0 fm s) = paper_top_level_id (papers s fm)"
  "attrib (vol0 fm s) = next_dict s"
  "content (vol0 fm s) = None"
  by (simp_all add: vol0_def)

lemma indexed_store_sel [simp]:
  "papers (indexed_store env fm rg sg s fid) = papers s"
  "next_dict (indexed_store env fm rg sg s fid) = Suc (next_dict s)"
  "objects (indexed_store env fm rg sg s fid) = objects s"
  by (simp_all add: indexed_store_def Let_def init_attrib_snd)

lemma indexed_store_dicts_other:
  "r \<noteq> next_dict s \<Longrightarrow> dicts (indexed_store env fm rg sg s fid) r = dicts s r"
  by (simp add: indexed_store_def Let_def init_attrib_snd)

lemma indexed_store_dicts_keep:
  "k \<noteq> ''url'' \<Longrightarrow> k \<noteq> ''venues'' \<Longrightarrow> k \<noteq> ''sigs'' \<Longrightarrow>
     dicts (indexed_store env fm rg sg s fid) (next_dict s) k
       = derive (dicts s (paper_attrib (papers s fm))) k"
  by (simp add: indexed_store_def Let_def init_attrib_snd)

lemma Volume_init_unfold:
  "Volume_init env fm rg sg s =
     (case full_id (vol0 fm s) of
        Inl e \<Rightarrow> (Inl e, vol0 fm s, snd (init_attrib fm s))
      | Inr fid \<Rightarrow>
          (case set_meta_info env (vol0 fm s) (indexed_store env fm rg sg s fid) of
             (Inl e, s7) \<Rightarrow> (Inl e, vol0 fm s, s7)
           | (Inr u, s7) \<Rightarrow>
               (case paper_top_level_id (papers s fm) of
                  [] \<Rightarrow> (Inl IndexError, (vol0 fm s)\<lparr>content := Some []\<rparr>, s7)
                | c # _ \<Rightarrow>
                    if c \<noteq> CHR ''J'' \<and> c \<noteq> CHR ''Q''
                    then append_vol ((vol0 fm s)\<lparr>content := Some []\<rparr>) fm s7
                    else (Inr (), (vol0 fm s)\<lparr>content := Some []\<rparr>, s7))))"
proof -
  obtain s3 where *: "init_attrib fm s = (vol0 fm s, s3)"
    by (metis init_attrib_fst prod.collapse vol0_def)
  show ?thesis
    by (simp add: Volume_init_def indexed_store_def * Let_def
        split: sum.splits prod.splits list.splits)
qed

lemma full_id_content [simp]: "full_id (v\<lparr>content := x\<rparr>) = full_id v"
  by (simp add: full_id_def split: list.splits)

lemma append_vol_Inr:
  assumes "append_vol v p s = (Inr u, v', s')"
  shows "\<exists>cs fid. content v = Some cs \<and> parent_volume_id (papers s p) = None \<and> full_id v = Inr fid
      \<and> v' = v\<lparr>content := Some (cs @ [p])\<rparr>
      \<and> s' = s\<lparr>papers := (papers s)(p := (papers s p)\<lparr>parent_volume_id := Some fid\<rparr>)\<rparr>"
  using assms
  by (auto simp: append_vol_def Let_def split: option.splits if_splits sum.splits)

lemma Volume_init_Inr:
  assumes "Volume_init env fm rg sg s = (Inr u, v', s')"
  shows "\<exists>fid t c cs.
      full_id (vol0 fm s) = Inr fid
    \<and> dicts (indexed_store env fm rg sg s fid) (next_dict s) ''title'' = Some (VStr t)
    \<and> paper_top_level_id (papers s fm) = c # cs
    \<and> (if c \<noteq> CHR ''J'' \<and> c \<noteq> CHR ''Q''
        then parent_volume_id (papers s fm) = None
           \<and> v' = (vol0 fm s)\<lparr>content := Some [fm]\<rparr>
           \<and> s' = (meta_store env (vol0 fm s) (VStr t) t (indexed_store env fm rg sg s fid))
                    \<lparr>papers := (papers s)(fm := (papers s fm)\<lparr>parent_volume_id := Some fid\<rparr>)\<rparr>
        else v' = (vol0 fm s)\<lparr>content := Some []\<rparr>
           \<and> s' = meta_store env (vol0 fm s) (VStr t) t (indexed_store env fm rg sg s fid))"
proof -
  from assms obtain fid where fid: "full_id (vol0 fm s) = Inr fid"
    by (cases "full_id (vol0 fm s)") (simp_all add: Volume_init_unfold)
  let ?s6 = "indexed_store env fm rg sg s fid"
  obtain r s7 where m: "set_meta_info env (vol0 fm s) ?s6 = (r, s7)"
    by (cases "set_meta_info env (vol0 fm s) ?s6")
  with assms fid obtain w where r: "r = Inr w"
    by (cases r) (simp_all add: Volume_init_unfold)
  from set_meta_info_Inr [OF m [unfolded r]] obtain t
    where t: "dicts ?s6 (next_dict s) ''title'' = Some (VStr t)"
      and s7: "s7 = meta_store env (vol0 fm s) (VStr t) t ?s6"
    by auto
  from assms fid m r obtain c cs where c: "paper_top_level_id (papers s fm) = c # cs"
    by (cases "paper_top_level_id (papers s fm)") (simp_all add: Volume_init_unfold)
  show ?thesis
  proof (cases "c \<noteq> CHR ''J'' \<and> c \<noteq> CHR ''Q''")
    case True
    with assms fid m r c
    have "append_vol ((vol0 fm s)\<lparr>content := Some []\<rparr>) fm s7 = (Inr u, v', s')"
      by (simp add: Volume_init_unfold)
    from append_vol_Inr [OF this] fid t c True show ?thesis
      by (auto simp: s7 meta_store_def)
  next
    case False
    with assms fid m r c have "v' = (vol0 fm s)\<lparr>content := Some []\<rparr>" and "s' = s7"
      by (simp_all add: Volume_init_unfold)
    with fid t c False show ?thesis
      by (auto simp: s7)
  qed
qed

lemma Volume_init_succeeds:
  assumes "full_id (vol0 fm s) = Inr fid"
    and "dicts s (paper_attrib (papers s fm)) ''title'' = Some (VStr t)"
    and "hd (paper_top_level_id (papers s fm)) = CHR ''J'' \<or> hd (paper_top_level_id (papers s fm)) = CHR ''Q''
         \<or> parent_volume_id (papers s fm) = None"
  shows "fst (Volume_init env fm rg sg s) = Inr ()"
proof -
  let ?s6 = "indexed_store env fm rg sg s fid"
  have "dicts ?s6 (attrib (vol0 fm s)) ''title'' = Some (VStr t)"
    using assms(2) by (simp add: indexed_store_dicts_keep derive_def)
  then have m: "set_meta_info env (vol0 fm s) ?s6 = (Inr (), meta_store env (vol0 fm s) (VStr t) t ?s6)"
    by (rule set_meta_info_str)
  from assms(1) obtain c cs where c: "paper_top_level_id (papers s fm) = c # cs"
    by (cases "paper_top_level_id (papers s fm)") (simp_all add: full_id_def)
  show ?thesis
    using assms(1,3) m c
    by (auto simp: Volume_init_unfold append_vol_def meta_store_def)
qed

lemma set_meta_info_frame:
  assumes "set_meta_info env v s = (r, s')"
  shows "papers s' = papers s" and "next_dict s' = next_dict s"
    and "objects s' = objects s"
    and "d \<noteq> attrib v \<Longrightarrow> dicts s' d = dicts s d"
    and "k \<noteq> ''meta_journal_title'' \<Longrightarrow> k \<noteq> ''meta_volume'' \<Longrightarrow> k \<noteq> ''meta_issue'' \<Longrightarrow>
           dicts s' (attrib v) k = dicts s (attrib v) k"
proof -
  have "papers s' = papers s \<and> next_dict s' = next_dict s \<and> objects s' = objects s
      \<and> (d \<noteq> attrib v \<longrightarrow> dicts s' d = dicts s d)
      \<and> (k \<noteq> ''meta_journal_title'' \<and> k \<noteq> ''meta_volume'' \<and> k \<noteq> ''meta_issue'' \<longrightarrow>
           dicts s' (attrib v) k = dicts s (attrib v) k)"
  proof (cases "dicts s (attrib v) ''title''")
    case None
    from assms show ?thesis by (simp add: set_meta_info_no_title [OF None])
  next
    case (Some x)
    show ?thesis
    proof (cases "\<exists>t. x = VStr t")
      case True
      then obtain t where "x = VStr t" by (elim exE)
      with Some have "dicts s (attrib v) ''title'' = Some (VStr t)" by simp
      from assms show ?thesis
        by (auto simp: set_meta_info_str [OF \<open>dicts s (attrib v) ''title'' = Some (VStr t)\<close>]
            meta_store_def split: option.splits)
    next
      case False
      then have "\<forall>t. x \<noteq> VStr t" by simp
      from assms show ?thesis
        by (auto simp: set_meta_info_not_str [OF Some \<open>\<forall>t. x \<noteq> VStr t\<close>])
    qed
  qed
  then show "papers s' = papers s" and "next_dict s' = next_dict s"
    and "objects s' = objects s"
    and "d \<noteq> attrib v \<Longrightarrow> dicts s' d = dicts s d"
    and "k \<noteq> ''meta_journal_title'' \<Longrightarrow> k \<noteq> ''meta_volume'' \<Longrightarrow> k \<noteq> ''meta_issue'' \<Longrightarrow>
           dicts s' (attrib v) k = dicts s (attrib v) k"
    by simp_all
qed

lemma append_vol_frame:
  assumes "append_vol v p s = (r, v', s')"
  shows "dicts s' = dicts s" and "attrib v' = attrib v"
    and "paper_attrib (papers s' q) = paper_attrib (papers s q)"
    and "objects s' = objects s"
  using assms
  by (auto simp: append_vol_def Let_def split: option.splits if_splits sum.splits)

lemma Volume_init_frame:
  assumes "Volume_init env fm rg sg s = (r, v, s')"
  shows "attrib v = next_dict s"
    and "d \<noteq> next_dict s \<Longrightarrow> dicts s' d = dicts s d"
    and "paper_attrib (papers s' q) = paper_attrib (papers s q)"
    and "objects s' = objects s"
    and "k \<noteq> ''url'' \<Longrightarrow> k \<noteq> ''venues'' \<Longrightarrow> k \<noteq> ''sigs'' \<Longrightarrow>
         k \<noteq> ''meta_journal_title'' \<Longrightarrow> k \<noteq> ''meta_volume'' \<Longrightarrow> k \<noteq> ''meta_issue'' \<Longrightarrow>
           dicts s' (next_dict s) k = derive (dicts s (paper_attrib (papers s fm))) k"
proof -
  let ?K = "k \<noteq> ''url'' \<and> k \<noteq> ''venues'' \<and> k \<noteq> ''sigs''
      \<and> k \<noteq> ''meta_journal_title'' \<and> k \<noteq> ''meta_volume'' \<and> k \<noteq> ''meta_issue''"
  let ?m = "derive (dicts s (paper_attrib (papers s fm)))"
  have "attrib v = next_dict s \<and> (d \<noteq> next_dict s \<longrightarrow> dicts s' d = dicts s d)
      \<and> paper_attrib (papers s' q) = paper_attrib (papers s q)
      \<and> objects s' = objects s
      \<and> (?K \<longrightarrow> dicts s' (next_dict s) k = ?m k)"
  proof (cases "full_id (vol0 fm s)")
    case (Inl e)
    with assms have "v = vol0 fm s" "s' = snd (init_attrib fm s)"
      by (simp_all add: Volume_init_unfold)
    then show ?thesis by (simp add: init_attrib_snd)
  next
    case (Inr fid)
    let ?s6 = "indexed_store env fm rg sg s fid"
    obtain r7 s7 where m: "set_meta_info env (vol0 fm s) ?s6 = (r7, s7)"
      by (cases "set_meta_info env (vol0 fm s) ?s6")
    note fr = set_meta_info_frame [OF m]
    have s7: "papers s7 = papers s"
      "d \<noteq> next_dict s \<longrightarrow> dicts s7 d = dicts s d"
      "objects s7 = objects s"
      "?K \<longrightarrow> dicts s7 (next_dict s) k = ?m k"
      using fr(1) fr(3) fr(4) [of d] fr(5) [of k]
      by (simp_all add: indexed_store_dicts_other indexed_store_dicts_keep)
    show ?thesis
    proof (cases r7)
      case (Inl e)
      with assms Inr m have "v = vol0 fm s" "s' = s7"
        by (simp_all add: Volume_init_unfold)
      with s7 show ?thesis by simp
    next
      case (Inr w)
      show ?thesis
      proof (cases "paper_top_level_id (papers s fm)")
        case Nil
        with assms \<open>full_id (vol0 fm s) = Inr fid\<close> m Inr
        have "v = (vol0 fm s)\<lparr>content := Some []\<rparr>" "s' = s7"
          by (simp_all add: Volume_init_unfold)
        with s7 show ?thesis by simp
      next
        case (Cons c cs)
        show ?thesis
        proof (cases "c \<noteq> CHR ''J'' \<and> c \<noteq> CHR ''Q''")
          case True
          with assms \<open>full_id (vol0 fm s) = Inr fid\<close> m Inr Cons
          have "append_vol ((vol0 fm s)\<lparr>content := Some []\<rparr>) fm s7 = (r, v, s')"
            by (simp add: Volume_init_unfold)
          from append_vol_frame [OF this] s7 show ?thesis by simp
        next
          case False
          with assms \<open>full_id (vol0 fm s) = Inr fid\<close> m Inr Cons
          have "v = (vol0 fm s)\<lparr>content := Some []\<rparr>" "s' = s7"
            by (simp_all add: Volume_init_unfold)
          with s7 show ?thesis by simp
        qed
      qed
    qed
  qed
  then show "attrib v = next_dict s"
    and "d \<noteq> next_dict s \<Longrightarrow> dicts s' d = dicts s d"
    and "paper_attrib (papers s' q) = paper_attrib (papers s q)"
    and "objects s' = objects s"
    and "k \<noteq> ''url'' \<Longrightarrow> k \<noteq> ''venues'' \<Longrightarrow> k \<noteq> ''sigs'' \<Longrightarrow>
         k \<noteq> ''meta_journal_title'' \<Longrightarrow> k \<noteq> ''meta_volume'' \<Longrightarrow> k \<noteq> ''meta_issue'' \<Longrightarrow>
           dicts s' (next_dict s) k = derive (dicts s (paper_attrib (papers s fm))) k"
    by simp_all
qed

subsection \<open>The regular expressions refine the specification\<close>


























subsection \<open>The constructor and \<^verbatim>\<open>append\<close>, continued\<close>

lemma Volume_init_ids:
  assumes "Volume_init env fm rg sg s = (r, v, s')"
  shows "front_matter_id v = paper_id (papers s fm)"
    and "top_level_id v = paper_top_level_id (papers s fm)"
proof -
  have "v = vol0 fm s \<or> (\<exists>c. v = (vol0 fm s)\<lparr>content := c\<rparr>)"
  proof (cases "full_id (vol0 fm s)")
    case (Inl e)
    with assms show ?thesis by (simp add: Volume_init_unfold)
  next
    case (Inr fid)
    obtain r7 s7 where m: "set_meta_info env (vol0 fm s) (indexed_store env fm rg sg s fid) = (r7, s7)"
      by (cases "set_meta_info env (vol0 fm s) (indexed_store env fm rg sg s fid)")
    show ?thesis
    proof (cases r7)
      case (Inl e)
      with assms Inr m show ?thesis by (simp add: Volume_init_unfold)
    next
      case r7: (Inr w)
      show ?thesis
      proof (cases "paper_top_level_id (papers s fm)")
        case Nil
        with assms Inr m r7 show ?thesis by (auto simp: Volume_init_unfold)
      next
        case (Cons c cs)
        show ?thesis
        proof (cases "c \<noteq> CHR ''J'' \<and> c \<noteq> CHR ''Q''")
          case True
          with assms Inr m r7 Cons
          have "append_vol ((vol0 fm s)\<lparr>content := Some []\<rparr>) fm s7 = (r, v, s')"
            by (simp add: Volume_init_unfold)
          then show ?thesis
            by (auto simp: append_vol_def Let_def split: if_splits sum.splits)
        next
          case False
          with assms Inr m r7 Cons show ?thesis by (auto simp: Volume_init_unfold)
        qed
      qed
    qed
  qed
  then show "front_matter_id v = paper_id (papers s fm)"
    and "top_level_id v = paper_top_level_id (papers s fm)"
    by auto
qed

lemma pair_of_fst: "fst p = a \<Longrightarrow> p = (a, fst (snd p), snd (snd p))"
  by (simp add: prod_eq_iff)


lemma append_vol_unowned:
  assumes "content v = Some cs" and "parent_volume_id (papers s p) = None"
    and "full_id v = Inr fid" and "append_vol v p s = (r, v', s')"
  shows "r = Inr () \<and> parent_volume_id (papers s' p) = Some fid \<and> full_id v' = Inr fid
       \<and> (\<exists>ids. paper_ids env v' s' = Inr ids \<and> Paper_full_id env (papers s' p) \<in> set ids)"
  using assms by (auto simp: append_vol_def paper_ids_def Let_def)

subsection \<open>The example archive\<close>

lemma ex_init_W: "fst (Volume_init ex_collab 0 ex_register ex_sigs ex_store) = Inr ()"
  by (rule Volume_init_succeeds
        [where fid = "''W15-10''" and t = "''Proceedings of the Workshop, Volume 2''"])
     (simp_all add: full_id_def ex_store_def ex_paper_def ex_dict_def)

lemma ex_init_J: "fst (Volume_init ex_collab 2 ex_register ex_sigs ex_store) = Inr ()"
  by (rule Volume_init_succeeds
        [where fid = "''J88-1''" and t = "''Computational Linguistics, Volume 14, Number 1''"])
     (simp_all add: full_id_def ex_store_def ex_paper_def ex_dict_def)

lemma ex_init_L: "fst (Volume_init ex_collab 6 ex_register ex_sigs ex_store) = Inr ()"
  by (rule Volume_init_succeeds
        [where fid = "''P18-3''" and t = "''Proceedings of the Conference''"])
     (simp_all add: full_id_def ex_store_def ex_paper_def ex_dict_def)

lemma ex_attrib_W:
  "attrib (fst (snd (Volume_init ex_collab 0 ex_register ex_sigs ex_store))) = 5"
  using Volume_init_frame(1) [OF pair_of_fst [OF ex_init_W]] by (simp add: ex_store_def)

lemma ex_init_P:
  "Volume_init ex_collab 3 ex_register ex_sigs ex_store
     = (fst (Volume_init ex_collab 3 ex_register ex_sigs ex_store),
        fst (snd (Volume_init ex_collab 3 ex_register ex_sigs ex_store)),
        snd (snd (Volume_init ex_collab 3 ex_register ex_sigs ex_store)))"
  by simp


text \<open>The titles the specification lists among its testable properties.\<close>

lemma spec_titles:
  "search_volume ''Proceedings, Volume 3'' = Some ''3''"
  "search_issue ''Issue 12-13'' = Some ''12-13''"
  "search_volume ''Proceedings of the Workshop, Volume 2'' = Some ''2''"
  "search_issue ''Proceedings of the Workshop, Volume 2'' = None"
  by code_simp+


section \<open>Claims\<close>

text \<open>
  C1: for every constructed volume, \<open>full_id\<close> is \<open>top_level_id\<close>, a hyphen and the first
  two characters of \<open>front_matter_id\<close> when \<open>top_level_id\<close> starts with \<^verbatim>\<open>W\<close>, and
  \<open>top_level_id\<close>, a hyphen and the first character of \<open>front_matter_id\<close> for every other
  prefix; the two identifiers are those of the front matter.
\<close>

theorem Volume_full_id_format:
  assumes "Volume_init env fm rg sg s = (Inr u, v, s')"
  shows "front_matter_id v = paper_id (papers s fm)
       \<and> top_level_id v = paper_top_level_id (papers s fm)
       \<and> top_level_id v \<noteq> []
       \<and> full_id v =
           Inr (top_level_id v @ ''-'' @
                (if hd (top_level_id v) = CHR ''W'' then take 2 (front_matter_id v)
                 else take 1 (front_matter_id v)))"
proof -
  from Volume_init_Inr [OF assms] obtain fid c cs
    where fid: "full_id (vol0 fm s) = Inr fid"
      and c: "paper_top_level_id (papers s fm) = c # cs"
      and v: "v = (vol0 fm s)\<lparr>content := Some [fm]\<rparr> \<or> v = (vol0 fm s)\<lparr>content := Some []\<rparr>"
    by (auto split: if_splits)
  from v have ids: "front_matter_id v = paper_id (papers s fm)"
    "top_level_id v = paper_top_level_id (papers s fm)" and f: "full_id v = full_id (vol0 fm s)"
    by auto
  from fid f c ids show ?thesis
    by (auto simp: full_id_def split: list.splits if_splits)
qed

theorem Volume_full_id_format_witness:
  "fst (Volume_init ex_collab 0 ex_register ex_sigs ex_store) = Inr ()
   \<and> full_id (fst (snd (Volume_init ex_collab 0 ex_register ex_sigs ex_store))) = Inr ''W15-10''
   \<and> fst (Volume_init ex_collab 2 ex_register ex_sigs ex_store) = Inr ()
   \<and> full_id (fst (snd (Volume_init ex_collab 2 ex_register ex_sigs ex_store))) = Inr ''J88-1''"
  using ex_init_W ex_init_J
    Volume_full_id_format [OF pair_of_fst [OF ex_init_W]]
    Volume_full_id_format [OF pair_of_fst [OF ex_init_J]]
  by (simp add: ex_store_def ex_paper_def)

text \<open>
  C2 says that \<^verbatim>\<open>append\<close> sets the parent of the paper to the volume's \<open>full_id\<close> whether
  or not the paper was owned before. For a paper that is owned, the method raises
  \<^verbatim>\<open>NameError\<close> instead: appending paper 3, which belongs to \<^verbatim>\<open>P19-2\<close>, to the volume
  \<^verbatim>\<open>W15-10\<close> puts it into \<open>content\<close> and leaves its parent \<^verbatim>\<open>P19-2\<close>.
\<close>

theorem append_vol_owned_example:
  "parent_volume_id (papers ex_store 3) = Some ''P19-2''
   \<and> full_id ex_volume = Inr ''W15-10''
   \<and> fst (append_vol ex_volume 3 ex_store) = Inl (NameError ''log'')
   \<and> content (fst (snd (append_vol ex_volume 3 ex_store))) = Some [0, 3]
   \<and> parent_volume_id (papers (snd (snd (append_vol ex_volume 3 ex_store))) 3) = Some ''P19-2''"
  by (simp add: append_vol_def full_id_def ex_volume_def ex_store_def ex_paper_def)

text \<open>
  C3 says that appending an owned paper reports the conflict and goes on to reassign the
  parent. Whenever \<^verbatim>\<open>parent_volume_id\<close> is not \<^verbatim>\<open>None\<close> (and \<open>content\<close> exists), \<^verbatim>\<open>append\<close>
  raises \<^verbatim>\<open>NameError\<close> for the undefined name \<^verbatim>\<open>log\<close>: the paper has been appended to
  \<open>content\<close>, and the store, with the paper's old parent, is unchanged.
\<close>

theorem append_vol_owned_raises:
  assumes "content v = Some cs" and "parent_volume_id (papers s p) = Some w"
  shows "append_vol v p s = (Inl (NameError ''log''), v\<lparr>content := Some (cs @ [p])\<rparr>, s)"
  using assms by (simp add: append_vol_def)

theorem append_vol_owned_raises_witness:
  "content ex_volume = Some [0]
   \<and> parent_volume_id (papers ex_store 3) = Some ''P19-2''
   \<and> append_vol ex_volume 3 ex_store
       = (Inl (NameError ''log''), ex_volume\<lparr>content := Some [0, 3]\<rparr>, ex_store)"
proof -
  have a: "content ex_volume = Some [0]" by (simp add: ex_volume_def)
  have b: "parent_volume_id (papers ex_store 3) = Some ''P19-2''"
    by (simp add: ex_store_def ex_paper_def)
  from append_vol_owned_raises [OF a b] a b show ?thesis by simp
qed

text \<open>
  C4: immediately after construction, \<open>content\<close> is empty when \<open>top_level_id\<close> starts
  with \<^verbatim>\<open>J\<close> or \<^verbatim>\<open>Q\<close>; for every other \<open>top_level_id\<close> it holds exactly the front-matter
  paper, whose \<^verbatim>\<open>parent_volume_id\<close> is then the volume's \<open>full_id\<close>.
\<close>

theorem Volume_init_content:
  assumes "Volume_init env fm rg sg s = (Inr u, v, s')"
  shows "top_level_id v \<noteq> []
       \<and> (if hd (top_level_id v) = CHR ''J'' \<or> hd (top_level_id v) = CHR ''Q''
          then content v = Some []
          else content v = Some [fm]
             \<and> (\<exists>fid. full_id v = Inr fid \<and> parent_volume_id (papers s' fm) = Some fid))"
proof -
  from Volume_init_Inr [OF assms] obtain fid t c cs
    where fid: "full_id (vol0 fm s) = Inr fid"
      and c: "paper_top_level_id (papers s fm) = c # cs"
      and br: "if c \<noteq> CHR ''J'' \<and> c \<noteq> CHR ''Q''
        then parent_volume_id (papers s fm) = None
           \<and> v = (vol0 fm s)\<lparr>content := Some [fm]\<rparr>
           \<and> s' = (meta_store env (vol0 fm s) (VStr t) t (indexed_store env fm rg sg s fid))
                    \<lparr>papers := (papers s)(fm := (papers s fm)\<lparr>parent_volume_id := Some fid\<rparr>)\<rparr>
        else v = (vol0 fm s)\<lparr>content := Some []\<rparr>
           \<and> s' = meta_store env (vol0 fm s) (VStr t) t (indexed_store env fm rg sg s fid)"
    by blast
  show ?thesis
  proof (cases "c \<noteq> CHR ''J'' \<and> c \<noteq> CHR ''Q''")
    case True
    with br have "v = (vol0 fm s)\<lparr>content := Some [fm]\<rparr>"
      and "papers s' = (papers s)(fm := (papers s fm)\<lparr>parent_volume_id := Some fid\<rparr>)"
      by simp_all
    with True c fid show ?thesis by simp
  next
    case False
    with br have "v = (vol0 fm s)\<lparr>content := Some []\<rparr>" by simp
    with False c show ?thesis by auto
  qed
qed

theorem Volume_init_content_witness:
  "fst (Volume_init ex_collab 0 ex_register ex_sigs ex_store) = Inr ()
   \<and> content (fst (snd (Volume_init ex_collab 0 ex_register ex_sigs ex_store))) = Some [0]
   \<and> parent_volume_id (papers (snd (snd (Volume_init ex_collab 0 ex_register ex_sigs ex_store))) 0)
        = Some ''W15-10''
   \<and> fst (Volume_init ex_collab 2 ex_register ex_sigs ex_store) = Inr ()
   \<and> content (fst (snd (Volume_init ex_collab 2 ex_register ex_sigs ex_store))) = Some []"
proof -
  let ?W = "Volume_init ex_collab 0 ex_register ex_sigs ex_store"
  let ?J = "Volume_init ex_collab 2 ex_register ex_sigs ex_store"
  have w: "top_level_id (fst (snd ?W)) = ''W15''" "front_matter_id (fst (snd ?W)) = ''1000''"
    using Volume_init_ids [OF pair_of_fst [OF ex_init_W]] by (simp_all add: ex_store_def ex_paper_def)
  have j: "top_level_id (fst (snd ?J)) = ''J88''"
    using Volume_init_ids [OF pair_of_fst [OF ex_init_J]] by (simp_all add: ex_store_def ex_paper_def)
  have fw: "full_id (fst (snd ?W)) = Inr ''W15-10''" by (simp add: full_id_def w)
  show ?thesis
    using ex_init_W ex_init_J
      Volume_init_content [OF pair_of_fst [OF ex_init_W]]
      Volume_init_content [OF pair_of_fst [OF ex_init_J]]
    by (simp add: w j fw)
qed

text \<open>
  C5: if the front matter's dictionary has an \<^verbatim>\<open>author\<close>, the constructed volume's
  dictionary has \<^verbatim>\<open>editor\<close> bound to that value and no \<^verbatim>\<open>author\<close>.
\<close>

theorem Volume_init_editor:
  assumes "Volume_init env fm rg sg s = (Inr u, v, s')"
    and "dicts s (paper_attrib (papers s fm)) ''author'' = Some a"
  shows "dicts s' (attrib v) ''editor'' = Some a \<and> dicts s' (attrib v) ''author'' = None"
  using Volume_init_Inr [OF assms(1)] assms(2)
  by (auto simp: meta_store_def indexed_store_dicts_keep derive_def split: if_splits option.splits)

theorem Volume_init_editor_witness:
  "fst (Volume_init ex_collab 0 ex_register ex_sigs ex_store) = Inr ()
   \<and> dicts ex_store (paper_attrib (papers ex_store 0)) ''author'' = Some (VStr ''A. Editor'')
   \<and> dicts (snd (snd (Volume_init ex_collab 0 ex_register ex_sigs ex_store))) 5 ''editor''
        = Some (VStr ''A. Editor'')
   \<and> dicts (snd (snd (Volume_init ex_collab 0 ex_register ex_sigs ex_store))) 5 ''author'' = None"
proof -
  have a: "dicts ex_store (paper_attrib (papers ex_store 0)) ''author'' = Some (VStr ''A. Editor'')"
    by (simp add: ex_store_def ex_paper_def ex_dict_def)
  from Volume_init_editor [OF pair_of_fst [OF ex_init_W] a] a ex_init_W show ?thesis
    by (simp add: ex_attrib_W)
qed

text \<open>
  C6: after construction the volume's dictionary has none of the keys \<^verbatim>\<open>revision\<close>,
  \<^verbatim>\<open>erratum\<close> and \<^verbatim>\<open>pages\<close>, whatever the front matter's dictionary held.
\<close>

theorem Volume_init_dropped:
  assumes "Volume_init env fm rg sg s = (Inr u, v, s')"
  shows "dicts s' (attrib v) ''revision'' = None
       \<and> dicts s' (attrib v) ''erratum'' = None
       \<and> dicts s' (attrib v) ''pages'' = None"
  using Volume_init_Inr [OF assms]
  by (auto simp: meta_store_def indexed_store_dicts_keep derive_def split: if_splits option.splits)

theorem Volume_init_dropped_witness:
  "fst (Volume_init ex_collab 0 ex_register ex_sigs ex_store) = Inr ()
   \<and> dicts ex_store (paper_attrib (papers ex_store 0)) ''pages'' = Some (VStr ''1-10'')
   \<and> dicts (snd (snd (Volume_init ex_collab 0 ex_register ex_sigs ex_store))) 5 ''revision'' = None
   \<and> dicts (snd (snd (Volume_init ex_collab 0 ex_register ex_sigs ex_store))) 5 ''erratum'' = None
   \<and> dicts (snd (snd (Volume_init ex_collab 0 ex_register ex_sigs ex_store))) 5 ''pages'' = None"
proof -
  have a: "dicts ex_store (paper_attrib (papers ex_store 0)) ''pages'' = Some (VStr ''1-10'')"
    by (simp add: ex_store_def ex_paper_def ex_dict_def)
  from Volume_init_dropped [OF pair_of_fst [OF ex_init_W]] a ex_init_W show ?thesis
    by (simp add: ex_attrib_W)
qed




text \<open>
  C8, as amended: the volume's dictionary is a new one, different from the front matter's,
  and a shallow clone of it. Whatever the outcome of the constructor, the front matter still
  refers to its own dictionary, that dictionary is unchanged, and so is every dictionary
  that existed before the call; the new dictionary holds the front matter's entry for every
  key the constructor does not assign, and the front matter's \<^verbatim>\<open>author\<close> value under
  \<^verbatim>\<open>editor\<close>; no object behind a value is written. The values themselves are not copied, so
  a value that is a mutable object is one object in both dictionaries. The premise says
  that the front matter's dictionary is an allocated one.
\<close>

theorem Volume_init_shallow_clone:
  assumes "paper_attrib (papers s fm) < next_dict s"
    and "Volume_init env fm rg sg s = (r, v, s')"
  shows "attrib v = next_dict s
       \<and> attrib v \<noteq> paper_attrib (papers s fm)
       \<and> paper_attrib (papers s' fm) = paper_attrib (papers s fm)
       \<and> dicts s' (paper_attrib (papers s' fm)) = dicts s (paper_attrib (papers s fm))
       \<and> (\<forall>d. d < next_dict s \<longrightarrow> dicts s' d = dicts s d)
       \<and> (\<forall>k. k \<notin> {''author'', ''editor'', ''revision'', ''erratum'', ''pages'', ''url'',
                    ''venues'', ''sigs'', ''meta_journal_title'', ''meta_volume'', ''meta_issue''}
              \<longrightarrow> dicts s' (attrib v) k = dicts s (paper_attrib (papers s fm)) k)
       \<and> (\<forall>a. dicts s (paper_attrib (papers s fm)) ''author'' = Some a
              \<longrightarrow> dicts s' (attrib v) ''editor'' = Some a)
       \<and> objects s' = objects s"
proof -
  note fr = Volume_init_frame [OF assms(2)]
  have keep: "dicts s' (attrib v) k = dicts s (paper_attrib (papers s fm)) k"
    if "k \<notin> {''author'', ''editor'', ''revision'', ''erratum'', ''pages'', ''url'',
              ''venues'', ''sigs'', ''meta_journal_title'', ''meta_volume'', ''meta_issue''}"
    for k
    using that fr(5) [of k] by (simp add: fr(1) derive_def)
  have ed: "dicts s' (attrib v) ''editor'' = Some a"
    if "dicts s (paper_attrib (papers s fm)) ''author'' = Some a" for a
    using that fr(5) [of "''editor''"] by (simp add: fr(1) derive_def)
  from assms(1) fr(1) fr(2) fr(3) [of fm] fr(4) keep ed show ?thesis
    by simp
qed

theorem Volume_init_shallow_clone_witness:
  "paper_attrib (papers ex_store 0) < next_dict ex_store
   \<and> attrib (fst (snd (Volume_init ex_collab 0 ex_register ex_sigs ex_store))) = 5
   \<and> paper_attrib (papers (snd (snd (Volume_init ex_collab 0 ex_register ex_sigs ex_store))) 0) = 0
   \<and> dicts (snd (snd (Volume_init ex_collab 0 ex_register ex_sigs ex_store))) 0 ''author''
        = Some (VStr ''A. Editor'')
   \<and> dicts (snd (snd (Volume_init ex_collab 0 ex_register ex_sigs ex_store))) 0 ''pages''
        = Some (VStr ''1-10'')
   \<and> dicts (snd (snd (Volume_init ex_collab 0 ex_register ex_sigs ex_store))) 5 ''title''
        = Some (VStr ''Proceedings of the Workshop, Volume 2'')
   \<and> dicts (snd (snd (Volume_init ex_collab 0 ex_register ex_sigs ex_store))) 5 ''editor''
        = Some (VStr ''A. Editor'')"
proof -
  have a: "paper_attrib (papers ex_store 0) < next_dict ex_store"
    by (simp add: ex_store_def ex_paper_def)
  let ?R = "Volume_init ex_collab 0 ex_register ex_sigs ex_store"
  note c = Volume_init_shallow_clone [OF a pair_of_fst [OF ex_init_W]]
  have p0: "paper_attrib (papers ex_store 0) = 0" and n: "next_dict ex_store = 5"
    and d0: "dicts ex_store 0 = ex_dict 0"
    by (simp_all add: ex_store_def ex_paper_def)
  from c have at: "attrib (fst (snd ?R)) = 5" by (simp add: n)
  from c have pa: "paper_attrib (papers (snd (snd ?R)) 0) = 0" by (simp add: p0)
  from c have "dicts (snd (snd ?R)) (paper_attrib (papers (snd (snd ?R)) 0))
      = dicts ex_store (paper_attrib (papers ex_store 0))"
    by (elim conjE)
  then have un: "dicts (snd (snd ?R)) 0 = ex_dict 0" by (simp add: pa p0 d0)
  from c have "\<forall>k. k \<notin> {''author'', ''editor'', ''revision'', ''erratum'', ''pages'', ''url'',
                    ''venues'', ''sigs'', ''meta_journal_title'', ''meta_volume'', ''meta_issue''}
      \<longrightarrow> dicts (snd (snd ?R)) (attrib (fst (snd ?R))) k
            = dicts ex_store (paper_attrib (papers ex_store 0)) k"
    by (elim conjE)
  from this [rule_format, of "''title''"]
  have ti: "dicts (snd (snd ?R)) 5 ''title'' = ex_dict 0 ''title''"
    by (simp add: at p0 d0)
  from c have "\<forall>a. dicts ex_store (paper_attrib (papers ex_store 0)) ''author'' = Some a
      \<longrightarrow> dicts (snd (snd ?R)) (attrib (fst (snd ?R))) ''editor'' = Some a"
    by (elim conjE)
  from this [rule_format, of "VStr ''A. Editor''"]
  have ed: "dicts (snd (snd ?R)) 5 ''editor'' = Some (VStr ''A. Editor'')"
    by (simp add: at p0 d0 ex_dict_def)
  from a at pa un ti ed show ?thesis
    by (simp add: ex_dict_def)
qed

text \<open>
  C8 as stated fails where it says that the clone shares no mutable state with the source
  paper. The \<^verbatim>\<open>author\<close> of front matter 6 is the list object 7; after the construction the
  new dictionary (5) holds that very object under \<^verbatim>\<open>editor\<close>, and the front matter's
  dictionary (1) still holds it under \<^verbatim>\<open>author\<close>.
\<close>

theorem Volume_init_shallow_clone_counterexample:
  "paper_attrib (papers ex_store 6) = 1
   \<and> dicts ex_store 1 ''author'' = Some (VRef 7)
   \<and> objects ex_store 7 = [VStr ''A. Editor'', VStr ''B. Editor'']
   \<and> fst (Volume_init ex_collab 6 ex_register ex_sigs ex_store) = Inr ()
   \<and> attrib (fst (snd (Volume_init ex_collab 6 ex_register ex_sigs ex_store))) = 5
   \<and> dicts (snd (snd (Volume_init ex_collab 6 ex_register ex_sigs ex_store))) 5 ''editor''
        = Some (VRef 7)
   \<and> dicts (snd (snd (Volume_init ex_collab 6 ex_register ex_sigs ex_store))) 1 ''author''
        = Some (VRef 7)"
proof -
  note fr = Volume_init_frame [OF pair_of_fst [OF ex_init_L]]
  have n: "next_dict ex_store = 5" by (simp add: ex_store_def)
  have p: "paper_attrib (papers ex_store 6) = 1" by (simp add: ex_store_def ex_paper_def)
  have d: "dicts ex_store 1 ''author'' = Some (VRef 7)" by (simp add: ex_store_def ex_dict_def)
  have o: "objects ex_store 7 = [VStr ''A. Editor'', VStr ''B. Editor'']"
    by (simp add: ex_store_def ex_objects_def)
  have e: "dicts (snd (snd (Volume_init ex_collab 6 ex_register ex_sigs ex_store))) 5 ''editor''
      = Some (VRef 7)"
    using fr(5) [of "''editor''"] d by (simp add: n p derive_def)
  have u: "dicts (snd (snd (Volume_init ex_collab 6 ex_register ex_sigs ex_store))) 1 ''author''
      = Some (VRef 7)"
    using fr(2) [of 1] d by (simp add: n)
  from fr(1) p d o e u ex_init_L show ?thesis by (simp add: n)
qed

text \<open>
  C9: \<open>full_id\<close> raises \<^verbatim>\<open>IndexError\<close> exactly when \<open>top_level_id\<close> is empty, or
  \<open>front_matter_id\<close> is empty while \<open>top_level_id\<close> does not start with \<^verbatim>\<open>W\<close>; it raises
  nothing else, and in the workshop branch it returns an identifier for every
  \<open>front_matter_id\<close>, however short.
\<close>

theorem full_id_raises_iff:
  "(full_id v = Inl IndexError \<longleftrightarrow>
      top_level_id v = [] \<or> (hd (top_level_id v) \<noteq> CHR ''W'' \<and> front_matter_id v = []))
   \<and> (\<forall>e. full_id v = Inl e \<longrightarrow> e = IndexError)
   \<and> (top_level_id v \<noteq> [] \<and> hd (top_level_id v) = CHR ''W'' \<longrightarrow>
        full_id v = Inr (top_level_id v @ ''-'' @ take 2 (front_matter_id v)))"
  by (auto simp: full_id_def split: list.splits)

theorem full_id_raises_iff_witness:
  "full_id \<lparr>front_matter_id = '''', top_level_id = ''P19'', attrib = 0, content = None\<rparr>
     = Inl IndexError
   \<and> full_id \<lparr>front_matter_id = ''1000'', top_level_id = '''', attrib = 0, content = None\<rparr>
     = Inl IndexError
   \<and> full_id \<lparr>front_matter_id = '''', top_level_id = ''W15'', attrib = 0, content = None\<rparr>
     = Inr ''W15-''
   \<and> full_id \<lparr>front_matter_id = ''3'', top_level_id = ''W15'', attrib = 0, content = None\<rparr>
     = Inr ''W15-3''"
  using full_id_raises_iff
    [of "\<lparr>front_matter_id = '''', top_level_id = ''P19'', attrib = 0, content = None\<rparr>"]
    full_id_raises_iff
    [of "\<lparr>front_matter_id = ''1000'', top_level_id = '''', attrib = 0, content = None\<rparr>"]
    full_id_raises_iff
    [of "\<lparr>front_matter_id = '''', top_level_id = ''W15'', attrib = 0, content = None\<rparr>"]
    full_id_raises_iff
    [of "\<lparr>front_matter_id = ''3'', top_level_id = ''W15'', attrib = 0, content = None\<rparr>"]
  by simp

text \<open>
  C10, as amended: constructing a volume from a front matter without \<^verbatim>\<open>title\<close> never
  assigns \<open>content\<close>. If \<open>full_id\<close> can be computed, the constructor raises
  \<^verbatim>\<open>KeyError\<close> for \<^verbatim>\<open>title\<close> after \<^verbatim>\<open>url\<close>, \<^verbatim>\<open>venues\<close> and \<^verbatim>\<open>sigs\<close> have been set and before
  \<^verbatim>\<open>meta_journal_title\<close> is; otherwise the \<^verbatim>\<open>IndexError\<close> of \<open>full_id\<close> is raised first,
  at the \<^verbatim>\<open>url\<close> step.
\<close>

theorem Volume_init_no_title:
  assumes "dicts s (paper_attrib (papers s fm)) ''title'' = None"
    and "Volume_init env fm rg sg s = (r, v, s')"
  shows "content v = None
       \<and> (case full_id v of
            Inl e \<Rightarrow> r = Inl IndexError
          | Inr fid \<Rightarrow>
              r = Inl (KeyError ''title'')
            \<and> dicts s' (attrib v) ''url'' = Some (ANTHOLOGY_URL_format env fid)
            \<and> dicts s' (attrib v) ''venues'' \<noteq> None
            \<and> dicts s' (attrib v) ''sigs'' = Some (sg (Paper_full_id env (papers s fm)))
            \<and> dicts s' (attrib v) ''meta_journal_title''
                = dicts s (paper_attrib (papers s fm)) ''meta_journal_title'')"
proof (cases "full_id (vol0 fm s)")
  case (Inl e)
  then have e: "e = IndexError"
    by (auto simp: full_id_def split: list.splits if_splits)
  from assms(2) Inl have "v = vol0 fm s" "r = Inl e"
    by (simp_all add: Volume_init_unfold)
  with Inl e show ?thesis by simp
next
  case (Inr fid)
  let ?s6 = "indexed_store env fm rg sg s fid"
  have "dicts ?s6 (attrib (vol0 fm s)) ''title'' = None"
    using assms(1) by (simp add: indexed_store_dicts_keep derive_def)
  from set_meta_info_no_title [OF this] assms(2) Inr
  have "v = vol0 fm s" "r = Inl (KeyError ''title'')" "s' = ?s6"
    by (simp_all add: Volume_init_unfold)
  with Inr show ?thesis
    by (simp add: indexed_store_def Let_def init_attrib_snd derive_def)
qed

theorem Volume_init_no_title_witness:
  "dicts ex_store (paper_attrib (papers ex_store 3)) ''title'' = None
   \<and> fst (Volume_init ex_collab 3 ex_register ex_sigs ex_store) = Inl (KeyError ''title'')
   \<and> content (fst (snd (Volume_init ex_collab 3 ex_register ex_sigs ex_store))) = None
   \<and> dicts (snd (snd (Volume_init ex_collab 3 ex_register ex_sigs ex_store))) 5 ''url''
        = Some (VStr ''https://www.aclweb.org/anthology/P19-2'')
   \<and> dicts (snd (snd (Volume_init ex_collab 3 ex_register ex_sigs ex_store))) 5 ''sigs''
        = Some (VOther ())
   \<and> dicts (snd (snd (Volume_init ex_collab 3 ex_register ex_sigs ex_store))) 5
        ''meta_journal_title'' = None"
proof -
  let ?P = "Volume_init ex_collab 3 ex_register ex_sigs ex_store"
  have a: "dicts ex_store (paper_attrib (papers ex_store 3)) ''title'' = None"
    by (simp add: ex_store_def ex_paper_def ex_dict_def)
  have ids: "top_level_id (fst (snd ?P)) = ''P19''" "front_matter_id (fst (snd ?P)) = ''2001''"
    using Volume_init_ids [OF ex_init_P] by (simp_all add: ex_store_def ex_paper_def)
  have f: "full_id (fst (snd ?P)) = Inr ''P19-2''" by (simp add: full_id_def ids)
  have at: "attrib (fst (snd ?P)) = 5"
    using Volume_init_frame(1) [OF ex_init_P] by (simp add: ex_store_def)
  have u: "ANTHOLOGY_URL_format ex_collab ''P19-2'' = VStr ''https://www.aclweb.org/anthology/P19-2''"
    by (simp add: ex_collab_def)
  have mj: "dicts ex_store (paper_attrib (papers ex_store 3)) ''meta_journal_title'' = None"
    by (simp add: ex_store_def ex_paper_def ex_dict_def)
  from Volume_init_no_title [OF a ex_init_P] a show ?thesis
    by (simp add: f at u mj ex_sigs_def)
qed

text \<open>
  C10 as stated fails for a front matter whose \<^verbatim>\<open>top_level_id\<close> is empty: the constructor
  raises \<^verbatim>\<open>IndexError\<close>, not \<^verbatim>\<open>KeyError\<close>.
\<close>

theorem Volume_init_no_title_counterexample:
  "dicts ex_store (paper_attrib (papers ex_store 4)) ''title'' = None
   \<and> fst (Volume_init ex_collab 4 ex_register ex_sigs ex_store) = Inl IndexError"
  by (simp add: Volume_init_unfold full_id_def ex_store_def ex_paper_def ex_dict_def)

end
